theory Spec2Isabelle
  imports Main "HOL-Library.Sublist"
begin

section \<open>JavaScript values as the tool layer sees them\<close>

text \<open>
  The tool arguments and the collaborator's JSON bodies are JavaScript values obtained
  from JSON.  Strings are sequences of UTF-8 bytes.  Numbers are the integers (the only
  operations the handlers perform on a number are the truthiness test and the conversion
  to a string, which for a safe integer is its decimal numeral); fractional numbers are
  outside this model.  An object is the list of its own properties, one entry per key.
\<close>

datatype jsval =
    JUndefined
  | JNull
  | JBool bool
  | JNum int
  | JStr string
  | JArr "jsval list"
  | JObj "(string \<times> jsval) list"

text \<open>Truthiness, as tested by \<^verbatim>\<open>if (x)\<close>, \<^verbatim>\<open>!x\<close>, \<^verbatim>\<open>x || y\<close> and \<^verbatim>\<open>x ? a : b\<close>.\<close>

fun truthy :: "jsval \<Rightarrow> bool" where
  "truthy JUndefined = False"
| "truthy JNull = False"
| "truthy (JBool b) = b"
| "truthy (JNum n) = (n \<noteq> 0)"
| "truthy (JStr s) = (s \<noteq> [])"
| "truthy (JArr xs) = True"
| "truthy (JObj kvs) = True"

text \<open>\<^verbatim>\<open>a || b\<close>\<close>

definition js_or :: "jsval \<Rightarrow> jsval \<Rightarrow> jsval" where
  "js_or a b = (if truthy a then a else b)"

text \<open>Decimal numerals.\<close>

fun show_nat :: "nat \<Rightarrow> string" where
  "show_nat n =
     (if n < 10 then [''0123456789'' ! n]
      else show_nat (n div 10) @ [''0123456789'' ! (n mod 10)])"

declare show_nat.simps [simp del]

definition show_int :: "int \<Rightarrow> string" where
  "show_int i = (if i < 0 then ''-'' @ show_nat (nat (- i)) else show_nat (nat i))"

fun intercalate :: "string \<Rightarrow> string list \<Rightarrow> string" where
  "intercalate sep [] = []"
| "intercalate sep [x] = x"
| "intercalate sep (x # y # ys) = x @ sep @ intercalate sep (y # ys)"

text \<open>
  ToString, as performed by template literals, \<^verbatim>\<open>String(x)\<close>, \<^verbatim>\<open>x.toString()\<close> on a
  non-nullish value, \<^verbatim>\<open>new Error(x)\<close> and \<^verbatim>\<open>URLSearchParams.set\<close>.  An array is joined with
  commas, its null and undefined elements giving the empty string.
\<close>

fun js_to_string :: "jsval \<Rightarrow> string" where
  "js_to_string JUndefined = ''undefined''"
| "js_to_string JNull = ''null''"
| "js_to_string (JBool b) = (if b then ''true'' else ''false'')"
| "js_to_string (JNum n) = show_int n"
| "js_to_string (JStr s) = s"
| "js_to_string (JArr xs) =
     intercalate '',''
       (map (\<lambda>x. case x of JUndefined \<Rightarrow> [] | JNull \<Rightarrow> [] | _ \<Rightarrow> js_to_string x) xs)"
| "js_to_string (JObj kvs) = ''[object Object]''"

text \<open>
  Property read.  \<open>get v k\<close> is the own property \<open>k\<close> of an object and undefined on
  anything else; it is \<^verbatim>\<open>v?.k\<close>, and it is \<^verbatim>\<open>v.k\<close> for a value that is neither null nor
  undefined.  On null and undefined the plain read \<^verbatim>\<open>v.k\<close> throws a TypeError, whose
  message (V8's) is \<open>type_error_read v k\<close>.  None of the keys the handlers read is a
  property of a primitive's or an array's prototype.
\<close>

fun get :: "jsval \<Rightarrow> string \<Rightarrow> jsval" where
  "get (JObj kvs) k = (case map_of kvs k of None \<Rightarrow> JUndefined | Some v \<Rightarrow> v)"
| "get _ k = JUndefined"

definition nullish :: "jsval \<Rightarrow> bool" where
  "nullish v = (v = JUndefined \<or> v = JNull)"

definition type_error_read :: "jsval \<Rightarrow> string \<Rightarrow> string" where
  "type_error_read v k =
     ''Cannot read properties of '' @ js_to_string v @ '' (reading '' @ [CHR 0x27] @ k @ [CHR 0x27] @ '')''"

text \<open>The argument map of a call; \<^verbatim>\<open>args?.k\<close> is undefined for a key that is not there.\<close>

type_synonym args = "string \<rightharpoonup> jsval"

definition arg :: "args \<Rightarrow> string \<Rightarrow> jsval" where
  "arg a k = (case a k of None \<Rightarrow> JUndefined | Some v \<Rightarrow> v)"

section \<open>URLSearchParams\<close>

type_synonym query = "(string \<times> string) list"

fun query_set :: "query \<Rightarrow> string \<Rightarrow> string \<Rightarrow> query" where
  "query_set [] k v = [(k, v)]"
| "query_set ((k', v') # q) k v =
     (if k' = k then (k, v) # filter (\<lambda>p. fst p \<noteq> k) q else (k', v') # query_set q k v)"

text \<open>One line \<^verbatim>\<open>if (c) query.set(k, v);\<close> of a query's construction.\<close>

definition set_when :: "bool \<times> string \<times> string \<Rightarrow> query \<Rightarrow> query" where
  "set_when line q = (case line of (c, k, v) \<Rightarrow> if c then query_set q k v else q)"

text \<open>The application/x-www-form-urlencoded serializer.\<close>

definition url_unreserved :: "char \<Rightarrow> bool" where
  "url_unreserved c =
     (let n = (of_char c :: nat) in
        n = 0x2A \<or> n = 0x2D \<or> n = 0x2E \<or> n = 0x5F \<or>
        (0x30 \<le> n \<and> n \<le> 0x39) \<or> (0x41 \<le> n \<and> n \<le> 0x5A) \<or> (0x61 \<le> n \<and> n \<le> 0x7A))"

definition url_encode_byte :: "char \<Rightarrow> string" where
  "url_encode_byte c =
     (if url_unreserved c then [c]
      else if c = CHR '' '' then ''+''
      else [CHR ''%'', ''0123456789ABCDEF'' ! ((of_char c :: nat) div 16),
            ''0123456789ABCDEF'' ! ((of_char c :: nat) mod 16)])"

definition url_encode :: "string \<Rightarrow> string" where
  "url_encode s = concat (map url_encode_byte s)"

definition query_string :: "query \<Rightarrow> string" where
  "query_string q = intercalate ''&'' (map (\<lambda>(k, v). url_encode k @ ''='' @ url_encode v) q)"

section \<open>Requests, responses and the collaborator\<close>

text \<open>
  A request is what a handler passes to \<^verbatim>\<open>fetch\<close>: the URL and the init object.  A call
  with no init object is a GET with no headers and no body.  The body is the object
  given to \<^verbatim>\<open>JSON.stringify\<close>.
\<close>

record request =
  url :: string
  http_method :: string
  headers :: "(string \<times> jsval) list"
  json_body :: "(string \<times> jsval) list option"

text \<open>
  A response has a status, from which \<^verbatim>\<open>res.ok\<close> follows, and a body; \<^verbatim>\<open>res.json()\<close>
  gives the parsed value or throws (\<open>Inl\<close> carries the error's message).
\<close>

record response =
  status :: nat
  json :: "string + jsval"

definition ok :: "response \<Rightarrow> bool" where
  "ok res = (200 \<le> status res \<and> status res \<le> 299)"

text \<open>
  The collaborator, as one invocation observes it: \<^verbatim>\<open>fetch\<close> gives a response or rejects
  (\<open>Inl\<close> carries the error's message).
\<close>

type_synonym fetch = "request \<Rightarrow> string + response"

text \<open>
  A handler body returns the requests it sent, in order, and either the message of the
  Error it threw (\<open>Inl\<close>) or the text of its result (\<open>Inr\<close>).
\<close>

type_synonym outcome = "request list \<times> (string + string)"

text \<open>
  The Markdown rendering of a successful response is display formatting.  It is modelled
  in full for \<^verbatim>\<open>create_job_offer\<close> and \<^verbatim>\<open>get_job_status\<close>; for the other tools it is the
  parameter \<open>render\<close>, given the tool's name, the argument values that the tool's template
  reads (none, except in \<^verbatim>\<open>mark_job_paid\<close> and \<^verbatim>\<open>leave_review\<close>) and the parsed body; it may
  throw like any other part of the handler.
\<close>

type_synonym renderer = "string \<Rightarrow> jsval list \<Rightarrow> jsval \<Rightarrow> string + string"

definition get_request :: "string \<Rightarrow> request" where
  "get_request u = \<lparr>url = u, http_method = ''GET'', headers = [], json_body = None\<rparr>"

text \<open>
  One exchange: \<^verbatim>\<open>const res = await fetch(...); if (!res.ok) throw ...; const v = await
  res.json()\<close>.  \<open>on_fail\<close> is the message of whatever the not-ok branch throws.
\<close>

definition exchange :: "fetch \<Rightarrow> request \<Rightarrow> (response \<Rightarrow> string) \<Rightarrow> request list \<times> (string + jsval)" where
  "exchange fetch rq on_fail =
     (case fetch rq of
        Inl e \<Rightarrow> ([rq], Inl e)
      | Inr res \<Rightarrow> if \<not> ok res then ([rq], Inl (on_fail res)) else ([rq], json res))"

text \<open>A handler that makes one exchange and formats the parsed body.\<close>

definition one_fetch ::
  "fetch \<Rightarrow> request \<Rightarrow> (response \<Rightarrow> string) \<Rightarrow> (jsval \<Rightarrow> string + string) \<Rightarrow> outcome" where
  "one_fetch fetch rq on_fail on_ok =
     (case exchange fetch rq on_fail of
        (tr, Inl e) \<Rightarrow> (tr, Inl e)
      | (tr, Inr v) \<Rightarrow> (tr, on_ok v))"

text \<open>
  The not-ok branch \<^verbatim>\<open>const error = await res.json(); throw new Error(error.f1 || ... ||
  `API error: ${res.status}`)\<close>, for the fields \<open>f1, ...\<close> in the handler's order.
\<close>

fun first_truthy :: "jsval list \<Rightarrow> jsval \<Rightarrow> jsval" where
  "first_truthy [] d = d"
| "first_truthy (v # vs) d = (if truthy v then v else first_truthy vs d)"

definition api_error_status :: "response \<Rightarrow> string" where
  "api_error_status res = ''API error: '' @ show_nat (status res)"

definition api_error :: "string list \<Rightarrow> response \<Rightarrow> string" where
  "api_error fs res =
     (case json res of
        Inl e \<Rightarrow> e
      | Inr err \<Rightarrow>
          if nullish err then type_error_read err (hd fs)
          else js_to_string (first_truthy (map (get err) fs) (JStr (api_error_status res))))"


text \<open>
  The not-ok branch of \<^verbatim>\<open>create_job_offer\<close>, \<^verbatim>\<open>get_human_profile\<close> and \<^verbatim>\<open>create_listing\<close>:
  \<^verbatim>\<open>if (res.status === 403 && error.code === 'AGENT_PENDING') throw new Error(<guidance>);\<close>
  before the usual throw.
\<close>

definition api_error_pending :: "string \<Rightarrow> string list \<Rightarrow> response \<Rightarrow> string" where
  "api_error_pending guidance fs res =
     (case json res of
        Inl e \<Rightarrow> e
      | Inr err \<Rightarrow>
          if status res = 403 \<and> nullish err then type_error_read err ''code''
          else if status res = 403 \<and> get err ''code'' = JStr ''AGENT_PENDING'' then guidance
          else api_error fs res)"

definition json_headers :: "(string \<times> jsval) list" where
  "json_headers = [(''Content-Type'', JStr ''application/json'')]"

definition agent_json_headers :: "jsval \<Rightarrow> (string \<times> jsval) list" where
  "agent_json_headers agentKey =
     [(''Content-Type'', JStr ''application/json''), (''X-Agent-Key'', agentKey)]"

definition agent_headers :: "jsval \<Rightarrow> (string \<times> jsval) list" where
  "agent_headers agentKey = [(''X-Agent-Key'', agentKey)]"

text \<open>
  The local credential check \<^verbatim>\<open>const agentKey = args?.agent_key as string; if (!agentKey)
  throw new Error(msg);\<close> followed by the rest of the handler.
\<close>

definition require_agent_key :: "args \<Rightarrow> string \<Rightarrow> (jsval \<Rightarrow> outcome) \<Rightarrow> outcome" where
  "require_agent_key a msg rest =
     (let agentKey = arg a ''agent_key'' in
      if \<not> truthy agentKey then ([], Inl msg) else rest agentKey)"

section \<open>The two helper functions\<close>

record SearchParams =
  skill :: jsval
  equipment :: jsval
  language :: jsval
  location :: jsval
  lat :: jsval
  lng :: jsval
  radius :: jsval
  max_rate :: jsval
  available_only :: bool
  work_mode :: jsval
  verified :: jsval

definition searchHumans_query :: "SearchParams \<Rightarrow> query" where
  "searchHumans_query params =
     fold set_when
       [(truthy (skill params), ''skill'', js_to_string (skill params)),
        (truthy (equipment params), ''equipment'', js_to_string (equipment params)),
        (truthy (language params), ''language'', js_to_string (language params)),
        (truthy (location params), ''location'', js_to_string (location params)),
        (truthy (lat params), ''lat'', js_to_string (lat params)),
        (truthy (lng params), ''lng'', js_to_string (lng params)),
        (truthy (radius params), ''radius'', js_to_string (radius params)),
        (truthy (max_rate params), ''maxRate'', js_to_string (max_rate params)),
        (available_only params, ''available'', ''true''),
        (truthy (work_mode params), ''workMode'', js_to_string (work_mode params)),
        (truthy (verified params), ''verified'', js_to_string (verified params))]
       []"

definition searchHumans :: "string \<Rightarrow> fetch \<Rightarrow> SearchParams \<Rightarrow> request list \<times> (string + jsval)" where
  "searchHumans api fetch params =
     exchange fetch
       (get_request (api @ ''/api/humans/search?'' @ query_string (searchHumans_query params)))
       api_error_status"

definition getHuman :: "string \<Rightarrow> fetch \<Rightarrow> jsval \<Rightarrow> request list \<times> (string + jsval)" where
  "getHuman api fetch ident =
     exchange fetch
       (get_request (api @ ''/api/humans/'' @ js_to_string ident))
       (\<lambda>res. ''Human not found: '' @ js_to_string ident)"

section \<open>The tool handlers\<close>

text \<open>
  Each definition is the body of one \<^verbatim>\<open>if (name === '...')\<close> block of the CallTool
  handler, applied to the API base URL, the renderer, the collaborator and the arguments.
\<close>

type_synonym handler = "string \<Rightarrow> renderer \<Rightarrow> fetch \<Rightarrow> args \<Rightarrow> outcome"

definition tool_search_humans :: handler where
  "tool_search_humans api render fetch a =
     (case searchHumans api fetch
             \<lparr>skill = arg a ''skill'', equipment = arg a ''equipment'',
              language = arg a ''language'', location = arg a ''location'',
              lat = arg a ''lat'', lng = arg a ''lng'', radius = arg a ''radius'',
              max_rate = arg a ''max_rate'',
              available_only = (arg a ''available_only'' \<noteq> JBool False),
              work_mode = arg a ''work_mode'', verified = arg a ''verified''\<rparr> of
        (tr, Inl e) \<Rightarrow> (tr, Inl e)
      | (tr, Inr humans) \<Rightarrow> (tr, render ''search_humans'' [] humans))"

definition tool_get_human :: handler where
  "tool_get_human api render fetch a =
     (case getHuman api fetch (arg a ''id'') of
        (tr, Inl e) \<Rightarrow> (tr, Inl e)
      | (tr, Inr human) \<Rightarrow> (tr, render ''get_human'' [] human))"

definition tool_register_agent :: handler where
  "tool_register_agent api render fetch a =
     one_fetch fetch
       \<lparr>url = api @ ''/api/agents/register'', http_method = ''POST'', headers = json_headers,
        json_body = Some [(''name'', arg a ''name''), (''description'', arg a ''description''),
                          (''websiteUrl'', arg a ''website_url''),
                          (''contactEmail'', arg a ''contact_email'')]\<rparr>
       (api_error [''error''])
       (render ''register_agent'' [])"

definition tool_get_agent_profile :: handler where
  "tool_get_agent_profile api render fetch a =
     one_fetch fetch
       (get_request (api @ ''/api/agents/'' @ js_to_string (arg a ''agent_id'')))
       (\<lambda>res. ''Agent not found: '' @ js_to_string (arg a ''agent_id''))
       (render ''get_agent_profile'' [])"

definition tool_verify_agent_domain :: handler where
  "tool_verify_agent_domain api render fetch a =
     one_fetch fetch
       \<lparr>url = api @ ''/api/agents/'' @ js_to_string (arg a ''agent_id'') @ ''/verify-domain'',
        http_method = ''POST'', headers = agent_json_headers (arg a ''agent_key''),
        json_body = Some [(''method'', arg a ''method'')]\<rparr>
       (api_error [''message'', ''error''])
       (render ''verify_agent_domain'' [])"

text \<open>The result text of \<^verbatim>\<open>create_job_offer\<close>, from the created job and the human's profile.\<close>

definition job_offer_text :: "args \<Rightarrow> jsval \<Rightarrow> jsval \<Rightarrow> string + string" where
  "job_offer_text a job human =
     (if nullish job then Inl (type_error_read job ''id'')
      else if nullish human then Inl (type_error_read human ''name'')
      else
        let webhookNote =
              (if truthy (arg a ''callback_url'')
               then ''\<newline>\<newline>'' @ [CHR 0xF0, CHR 0x9F, CHR 0x94, CHR 0x94] @ '' **Webhook configured.** Status updates will be sent to your callback URL. On acceptance, the human'' @ [CHR 0x27] @ ''s contact info will be included in the webhook payload.''
               else ''\<newline>\<newline>Use `get_job_status` with job_id '' @ [CHR 0x22] @ js_to_string (get job ''id'') @ [CHR 0x22] @ '' to check if they'' @ [CHR 0x27] @ ''ve accepted.'')
        in Inr (''**Job Offer Created!**\<newline>\<newline>**Job ID:** '' @ js_to_string (get job ''id'')
                @ ''\<newline>**Status:** '' @ js_to_string (get job ''status'')
                @ ''\<newline>**Human:** '' @ js_to_string (get human ''name'')
                @ ''\<newline>**Price:** $'' @ js_to_string (arg a ''price_usdc'')
                @ '' USDC\<newline>\<newline>'' @ [CHR 0xE2, CHR 0x8F, CHR 0xB3] @ '' **Next Step:** Wait for ''
                @ js_to_string (get human ''name'') @ '' to accept the offer.'' @ webhookNote
                @ ''\<newline>\<newline>Once accepted, you can send payment to their wallet and use `mark_job_paid` to record the transaction.''))"

definition agent_pending_jobs :: string where
  "agent_pending_jobs =
     ''Agent is not yet activated. You must activate before creating jobs.\<newline>- Free (BASIC tier): Use `request_activation_code` '' @ [CHR 0xE2, CHR 0x86, CHR 0x92] @ '' post on social media '' @ [CHR 0xE2, CHR 0x86, CHR 0x92] @ '' `verify_social_activation`\<newline>- Paid (PRO tier): Use `get_payment_activation` '' @ [CHR 0xE2, CHR 0x86, CHR 0x92] @ '' send payment '' @ [CHR 0xE2, CHR 0x86, CHR 0x92] @ '' `verify_payment_activation`\<newline>Check your status with `get_activation_status`.''"

text \<open>The request that creates the job.\<close>

definition create_job_request :: "string \<Rightarrow> jsval \<Rightarrow> args \<Rightarrow> request" where
  "create_job_request api agentKey a =
     \<lparr>url = api @ ''/api/jobs'', http_method = ''POST'', headers = agent_json_headers agentKey,
      json_body = Some
        [(''humanId'', arg a ''human_id''), (''agentId'', arg a ''agent_id''),
         (''agentName'', arg a ''agent_name''), (''title'', arg a ''title''),
         (''description'', arg a ''description''), (''category'', arg a ''category''),
         (''priceUsdc'', arg a ''price_usdc''), (''paymentMode'', arg a ''payment_mode''),
         (''paymentTiming'', arg a ''payment_timing''),
         (''streamMethod'', arg a ''stream_method''),
         (''streamInterval'', arg a ''stream_interval''),
         (''streamRateUsdc'', arg a ''stream_rate_usdc''),
         (''streamMaxTicks'', arg a ''stream_max_ticks''),
         (''callbackUrl'', arg a ''callback_url''),
         (''callbackSecret'', arg a ''callback_secret'')]\<rparr>"

definition tool_create_job_offer :: handler where
  "tool_create_job_offer api render fetch a =
     require_agent_key a ''agent_key is required. Register first with register_agent to get an API key.''
       (\<lambda>agentKey.
          case exchange fetch (create_job_request api agentKey a)
                 (api_error_pending agent_pending_jobs [''error'']) of
            (tr, Inl e) \<Rightarrow> (tr, Inl e)
          | (tr, Inr job) \<Rightarrow>
              (case getHuman api fetch (arg a ''human_id'') of
                 (tr', Inl e) \<Rightarrow> (tr @ tr', Inl e)
               | (tr', Inr human) \<Rightarrow> (tr @ tr', job_offer_text a job human)))"

text \<open>The result text of \<^verbatim>\<open>get_job_status\<close>.\<close>

definition statusEmoji :: "(string \<times> string) list" where
  "statusEmoji =
     [(''PENDING'', [CHR 0xE2, CHR 0x8F, CHR 0xB3]),
      (''ACCEPTED'', [CHR 0xE2, CHR 0x9C, CHR 0x85]),
      (''REJECTED'', [CHR 0xE2, CHR 0x9D, CHR 0x8C]),
      (''PAID'', [CHR 0xF0, CHR 0x9F, CHR 0x92, CHR 0xB0]),
      (''STREAMING'', [CHR 0xF0, CHR 0x9F, CHR 0x94, CHR 0x84]),
      (''PAUSED'', [CHR 0xE2, CHR 0x8F, CHR 0xB8, CHR 0xEF, CHR 0xB8, CHR 0x8F]),
      (''COMPLETED'', [CHR 0xF0, CHR 0x9F, CHR 0x8E, CHR 0x89]),
      (''CANCELLED'', [CHR 0xF0, CHR 0x9F, CHR 0x9A, CHR 0xAB]),
      (''DISPUTED'', [CHR 0xE2, CHR 0x9A, CHR 0xA0, CHR 0xEF, CHR 0xB8, CHR 0x8F])]"

text \<open>
  The \<^verbatim>\<open>switch (job.status)\<close> that chooses the next-step guidance, for a job that is
  not null.  \<open>isStream\<close> is \<^verbatim>\<open>job.paymentMode === 'STREAM'\<close> and \<open>streamSummary\<close> is
  \<^verbatim>\<open>job.streamSummary\<close>.
\<close>

definition nextStep :: "jsval \<Rightarrow> string" where
  "nextStep job =
     (let isStream = (get job ''paymentMode'' = JStr ''STREAM'');
          streamSummary = get job ''streamSummary'';
          st = get job ''status''
      in
      if st = JStr ''PENDING'' then ''Waiting for the human to accept or reject.''
      else if st = JStr ''ACCEPTED'' then
        (if isStream then
           (if get job ''streamMethod'' = JStr ''SUPERFLUID''
            then ''Human accepted! Create a Superfluid flow to their wallet, then use `start_stream` with your sender address to verify.''
            else ''Human accepted! Use `start_stream` to lock the network/token and start sending payments.'')
         else
           (if truthy (get job ''callbackUrl'')
            then ''Human accepted! Contact info was sent to your webhook. Send $'' @ js_to_string (get job ''priceUsdc'') @ '' USDC to their wallet, then use `mark_job_paid` with the transaction hash.''
            else ''Human accepted! Send $'' @ js_to_string (get job ''priceUsdc'') @ '' USDC to their wallet, then use `mark_job_paid` with the transaction hash.''))
      else if st = JStr ''REJECTED'' then ''The human rejected this offer. Consider adjusting your offer or finding another human.''
      else if st = JStr ''PAID'' then ''Payment recorded. Work is in progress. The human will mark it complete when done.''
      else if st = JStr ''STREAMING'' then
        (if get streamSummary ''method'' = JStr ''SUPERFLUID''
         then ''Stream active via Superfluid. Total streamed: $'' @ js_to_string (js_or (get streamSummary ''totalPaid'') (JStr ''0'')) @ '' USDC. Use `pause_stream` or `stop_stream` to manage.''
         else ''Stream active via micro-transfer. Total paid: $'' @ js_to_string (js_or (get streamSummary ''totalPaid'') (JStr ''0'')) @ '' USDC. Use `record_stream_tick` to submit each payment.'')
      else if st = JStr ''PAUSED'' then ''Stream is paused. Use `resume_stream` to continue or `stop_stream` to end permanently.''
      else if st = JStr ''COMPLETED'' then
        (if truthy (get job ''review'')
         then ''Review submitted: '' @ js_to_string (get (get job ''review'') ''rating'') @ ''/5 stars''
         else ''Job complete! You can now use `leave_review` to rate the human.'')
      else [])"

text \<open>
  The stream block of the status text, present when the job streams and carries a summary.
  \<^verbatim>\<open>toLowerCase\<close> exists on strings only: on another value the call throws a TypeError
  (the message is V8's).  Letters outside ASCII are left as they are.
\<close>

definition to_lower :: "char \<Rightarrow> char" where
  "to_lower c =
     (let n = (of_char c :: nat) in if 0x41 \<le> n \<and> n \<le> 0x5A then char_of (n + 32) else c)"

definition toLowerCase :: "jsval \<Rightarrow> string + string" where
  "toLowerCase v =
     (case v of
        JStr s \<Rightarrow> Inr (map to_lower s)
      | _ \<Rightarrow> Inl (''(streamSummary.interval || '' @ [CHR 0x22] @ ''DAILY'' @ [CHR 0x22] @ '').toLowerCase is not a function''))"

definition streamInfo :: "jsval \<Rightarrow> string + string" where
  "streamInfo job =
     (let isStream = (get job ''paymentMode'' = JStr ''STREAM'');
          streamSummary = get job ''streamSummary''
      in
      if isStream \<and> truthy streamSummary then
        (case toLowerCase (js_or (get streamSummary ''interval'') (JStr ''DAILY'')) of
           Inl e \<Rightarrow> Inl e
         | Inr interval \<Rightarrow>
             Inr (''\<newline>**Payment Mode:** STREAM ('' @ js_to_string (get streamSummary ''method'') @ '')''
                  @ ''\<newline>**Rate:** $'' @ js_to_string (js_or (get streamSummary ''rateUsdc'') (JStr ''?''))
                  @ ''/'' @ interval
                  @ ''\<newline>**Total Paid:** $'' @ js_to_string (js_or (get streamSummary ''totalPaid'') (JStr ''0'')) @ '' USDC''
                  @ ''\<newline>**Ticks:** '' @ js_to_string (js_or (get streamSummary ''tickCount'') (JNum 0))
                  @ (if truthy (get streamSummary ''maxTicks'')
                     then ''/'' @ js_to_string (get streamSummary ''maxTicks'') else [])
                  @ ''\<newline>**Network:** '' @ js_to_string (js_or (get streamSummary ''network'') (JStr ''Not set''))))
      else Inr [])"

definition agentInfo :: "jsval \<Rightarrow> string" where
  "agentInfo job =
     (if truthy (get job ''registeredAgent'')
      then ''**Agent:** '' @ js_to_string (get (get job ''registeredAgent'') ''name'')
           @ (if truthy (get (get job ''registeredAgent'') ''domainVerified'')
              then '' '' @ [CHR 0xE2, CHR 0x9C, CHR 0x85] @ '' Verified'' else [])
      else if truthy (get job ''agentName'')
      then ''**Agent:** '' @ js_to_string (get job ''agentName'')
      else [])"

text \<open>
  The status text is the template's lines up to the stream block, then the next-step
  line.  \<^verbatim>\<open>statusEmoji[job.status] || ''\<close> is the table's entry for the status (the table's
  own entries only).
\<close>

definition job_status_head :: "jsval \<Rightarrow> string \<Rightarrow> string" where
  "job_status_head job stream_info =
     ''**Job Status**\<newline>\<newline>**Job ID:** '' @ js_to_string (get job ''id'')
     @ ''\<newline>**Status:** ''
     @ (case map_of statusEmoji (js_to_string (get job ''status'')) of None \<Rightarrow> [] | Some e \<Rightarrow> e)
     @ '' '' @ js_to_string (get job ''status'')
     @ ''\<newline>**Title:** '' @ js_to_string (get job ''title'')
     @ ''\<newline>**Price:** $'' @ js_to_string (get job ''priceUsdc'') @ '' USDC''
     @ ''\<newline>**Human:** '' @ js_to_string (get (get job ''human'') ''name'')
     @ ''\<newline>''
     @ (if agentInfo job \<noteq> [] then agentInfo job @ ''\<newline>'' else [])
     @ stream_info"

definition job_status_text :: "jsval \<Rightarrow> string + string" where
  "job_status_text job =
     (if nullish job then Inl (type_error_read job ''paymentMode'')
      else
        case streamInfo job of
          Inl e \<Rightarrow> Inl e
        | Inr stream_info \<Rightarrow>
            if nullish (get job ''human'') then Inl (type_error_read (get job ''human'') ''name'')
            else Inr (job_status_head job stream_info
                      @ ''\<newline>**Next Step:** '' @ nextStep job))"

definition tool_get_job_status :: handler where
  "tool_get_job_status api render fetch a =
     one_fetch fetch
       (get_request (api @ ''/api/jobs/'' @ js_to_string (arg a ''job_id'')))
       (\<lambda>res. ''Job not found: '' @ js_to_string (arg a ''job_id''))
       job_status_text"

definition tool_mark_job_paid :: handler where
  "tool_mark_job_paid api render fetch a =
     one_fetch fetch
       \<lparr>url = api @ ''/api/jobs/'' @ js_to_string (arg a ''job_id'') @ ''/paid'',
        http_method = ''PATCH'', headers = json_headers,
        json_body = Some [(''paymentTxHash'', arg a ''payment_tx_hash''),
                          (''paymentNetwork'', arg a ''payment_network''),
                          (''paymentAmount'', arg a ''payment_amount'')]\<rparr>
       (api_error [''reason'', ''error''])
       (render ''mark_job_paid''
          [arg a ''payment_tx_hash'', arg a ''payment_network'', arg a ''payment_amount''])"

definition tool_check_humanity_status :: handler where
  "tool_check_humanity_status api render fetch a =
     (case getHuman api fetch (arg a ''human_id'') of
        (tr, Inl e) \<Rightarrow> (tr, Inl e)
      | (tr, Inr human) \<Rightarrow> (tr, render ''check_humanity_status'' [] human))"

definition tool_get_human_profile :: handler where
  "tool_get_human_profile api render fetch a =
     require_agent_key a ''agent_key is required. Register and activate first.''
       (\<lambda>agentKey.
          one_fetch fetch
            \<lparr>url = api @ ''/api/humans/'' @ js_to_string (arg a ''human_id'') @ ''/profile'',
             http_method = ''GET'', headers = agent_headers agentKey, json_body = None\<rparr>
            (api_error_pending
               ''Agent is not yet activated. Activate first using request_activation_code or get_payment_activation.''
               [''error''])
            (render ''get_human_profile'' []))"

definition tool_request_activation_code :: handler where
  "tool_request_activation_code api render fetch a =
     require_agent_key a ''agent_key is required.''
       (\<lambda>agentKey.
          one_fetch fetch
            \<lparr>url = api @ ''/api/agents/activate/social'', http_method = ''POST'',
             headers = agent_json_headers agentKey, json_body = None\<rparr>
            (api_error [''error''])
            (render ''request_activation_code'' []))"

definition tool_verify_social_activation :: handler where
  "tool_verify_social_activation api render fetch a =
     require_agent_key a ''agent_key is required.''
       (\<lambda>agentKey.
          one_fetch fetch
            \<lparr>url = api @ ''/api/agents/activate/social/verify'', http_method = ''POST'',
             headers = agent_json_headers agentKey,
             json_body = Some [(''postUrl'', arg a ''post_url'')]\<rparr>
            (api_error [''error''])
            (render ''verify_social_activation'' []))"

definition tool_get_activation_status :: handler where
  "tool_get_activation_status api render fetch a =
     require_agent_key a ''agent_key is required.''
       (\<lambda>agentKey.
          one_fetch fetch
            \<lparr>url = api @ ''/api/agents/activate/status'', http_method = ''GET'',
             headers = agent_headers agentKey, json_body = None\<rparr>
            (api_error [''error''])
            (render ''get_activation_status'' []))"

definition tool_get_payment_activation :: handler where
  "tool_get_payment_activation api render fetch a =
     require_agent_key a ''agent_key is required.''
       (\<lambda>agentKey.
          one_fetch fetch
            \<lparr>url = api @ ''/api/agents/activate/payment'', http_method = ''POST'',
             headers = agent_json_headers agentKey, json_body = None\<rparr>
            (api_error [''error''])
            (render ''get_payment_activation'' []))"

definition tool_verify_payment_activation :: handler where
  "tool_verify_payment_activation api render fetch a =
     require_agent_key a ''agent_key is required.''
       (\<lambda>agentKey.
          one_fetch fetch
            \<lparr>url = api @ ''/api/agents/activate/payment/verify'', http_method = ''POST'',
             headers = agent_json_headers agentKey,
             json_body = Some [(''txHash'', arg a ''tx_hash''), (''network'', arg a ''network'')]\<rparr>
            (api_error [''error''])
            (render ''verify_payment_activation'' []))"

definition tool_start_stream :: handler where
  "tool_start_stream api render fetch a =
     require_agent_key a ''agent_key is required.''
       (\<lambda>agentKey.
          one_fetch fetch
            \<lparr>url = api @ ''/api/jobs/'' @ js_to_string (arg a ''job_id'') @ ''/start-stream'',
             http_method = ''PATCH'', headers = agent_json_headers agentKey,
             json_body = Some [(''senderAddress'', arg a ''sender_address''), (''network'', arg a ''network''),
                               (''token'', js_or (arg a ''token'') (JStr ''USDC''))]\<rparr>
            (api_error [''hint'', ''error''])
            (render ''start_stream'' []))"

definition tool_record_stream_tick :: handler where
  "tool_record_stream_tick api render fetch a =
     require_agent_key a ''agent_key is required.''
       (\<lambda>agentKey.
          one_fetch fetch
            \<lparr>url = api @ ''/api/jobs/'' @ js_to_string (arg a ''job_id'') @ ''/stream-tick'',
             http_method = ''PATCH'', headers = agent_json_headers agentKey,
             json_body = Some [(''txHash'', arg a ''tx_hash'')]\<rparr>
            (api_error [''error''])
            (render ''record_stream_tick'' []))"

definition tool_pause_stream :: handler where
  "tool_pause_stream api render fetch a =
     require_agent_key a ''agent_key is required.''
       (\<lambda>agentKey.
          one_fetch fetch
            \<lparr>url = api @ ''/api/jobs/'' @ js_to_string (arg a ''job_id'') @ ''/pause-stream'',
             http_method = ''PATCH'', headers = agent_json_headers agentKey,
             json_body = None\<rparr>
            (api_error [''hint'', ''error''])
            (render ''pause_stream'' []))"

definition tool_resume_stream :: handler where
  "tool_resume_stream api render fetch a =
     require_agent_key a ''agent_key is required.''
       (\<lambda>agentKey.
          one_fetch fetch
            \<lparr>url = api @ ''/api/jobs/'' @ js_to_string (arg a ''job_id'') @ ''/resume-stream'',
             http_method = ''PATCH'', headers = agent_json_headers agentKey,
             json_body = Some [(''senderAddress'', arg a ''sender_address'')]\<rparr>
            (api_error [''hint'', ''error''])
            (render ''resume_stream'' []))"

definition tool_stop_stream :: handler where
  "tool_stop_stream api render fetch a =
     require_agent_key a ''agent_key is required.''
       (\<lambda>agentKey.
          one_fetch fetch
            \<lparr>url = api @ ''/api/jobs/'' @ js_to_string (arg a ''job_id'') @ ''/stop-stream'',
             http_method = ''PATCH'', headers = agent_json_headers agentKey,
             json_body = None\<rparr>
            (api_error [''error''])
            (render ''stop_stream'' []))"

definition tool_send_job_message :: handler where
  "tool_send_job_message api render fetch a =
     require_agent_key a ''agent_key is required.''
       (\<lambda>agentKey.
          one_fetch fetch
            \<lparr>url = api @ ''/api/jobs/'' @ js_to_string (arg a ''job_id'') @ ''/messages'',
             http_method = ''POST'', headers = agent_json_headers agentKey,
             json_body = Some [(''content'', arg a ''content'')]\<rparr>
            (api_error [''error''])
            (render ''send_job_message'' []))"

definition tool_get_job_messages :: handler where
  "tool_get_job_messages api render fetch a =
     require_agent_key a ''agent_key is required.''
       (\<lambda>agentKey.
          one_fetch fetch
            \<lparr>url = api @ ''/api/jobs/'' @ js_to_string (arg a ''job_id'') @ ''/messages'',
             http_method = ''GET'', headers = agent_headers agentKey, json_body = None\<rparr>
            (api_error [''error''])
            (render ''get_job_messages'' []))"

definition agent_pending_listings :: string where
  "agent_pending_listings =
     ''Agent is not yet activated. You must activate before creating listings.\<newline>- Free (BASIC tier): Use `request_activation_code` '' @ [CHR 0xE2, CHR 0x86, CHR 0x92] @ '' post on social media '' @ [CHR 0xE2, CHR 0x86, CHR 0x92] @ '' `verify_social_activation`\<newline>- Paid (PRO tier): Use `get_payment_activation` '' @ [CHR 0xE2, CHR 0x86, CHR 0x92] @ '' send payment '' @ [CHR 0xE2, CHR 0x86, CHR 0x92] @ '' `verify_payment_activation`''"

definition tool_create_listing :: handler where
  "tool_create_listing api render fetch a =
     require_agent_key a ''agent_key is required.''
       (\<lambda>agentKey.
          one_fetch fetch
            \<lparr>url = api @ ''/api/listings'', http_method = ''POST'',
             headers = agent_json_headers agentKey,
             json_body = Some
               [(''title'', arg a ''title''), (''description'', arg a ''description''),
                (''budgetUsdc'', arg a ''budget_usdc''), (''category'', arg a ''category''),
                (''requiredSkills'', js_or (arg a ''required_skills'') (JArr [])),
                (''requiredEquipment'', js_or (arg a ''required_equipment'') (JArr [])),
                (''location'', arg a ''location''), (''locationLat'', arg a ''location_lat''),
                (''locationLng'', arg a ''location_lng''), (''radiusKm'', arg a ''radius_km''),
                (''workMode'', arg a ''work_mode''), (''expiresAt'', arg a ''expires_at''),
                (''maxApplicants'', arg a ''max_applicants''),
                (''callbackUrl'', arg a ''callback_url''),
                (''callbackSecret'', arg a ''callback_secret'')]\<rparr>
            (api_error_pending agent_pending_listings [''message'', ''error''])
            (render ''create_listing'' []))"

definition get_listings_query :: "args \<Rightarrow> query" where
  "get_listings_query a =
     fold set_when
       [(truthy (arg a ''page''), ''page'', js_to_string (arg a ''page'')),
        (truthy (arg a ''limit''), ''limit'', js_to_string (arg a ''limit'')),
        (truthy (arg a ''skill''), ''skill'', js_to_string (arg a ''skill'')),
        (truthy (arg a ''category''), ''category'', js_to_string (arg a ''category'')),
        (truthy (arg a ''work_mode''), ''workMode'', js_to_string (arg a ''work_mode'')),
        (truthy (arg a ''min_budget''), ''minBudget'', js_to_string (arg a ''min_budget'')),
        (truthy (arg a ''max_budget''), ''maxBudget'', js_to_string (arg a ''max_budget'')),
        (truthy (arg a ''lat''), ''lat'', js_to_string (arg a ''lat'')),
        (truthy (arg a ''lng''), ''lng'', js_to_string (arg a ''lng'')),
        (truthy (arg a ''radius''), ''radius'', js_to_string (arg a ''radius''))]
       []"

definition tool_get_listings :: handler where
  "tool_get_listings api render fetch a =
     one_fetch fetch
       (get_request (api @ ''/api/listings?'' @ query_string (get_listings_query a)))
       api_error_status
       (render ''get_listings'' [])"

definition tool_get_listing :: handler where
  "tool_get_listing api render fetch a =
     one_fetch fetch
       (get_request (api @ ''/api/listings/'' @ js_to_string (arg a ''listing_id'')))
       (\<lambda>res. if status res = 404
              then ''Listing not found: '' @ js_to_string (arg a ''listing_id'')
              else api_error_status res)
       (render ''get_listing'' [])"

definition tool_get_listing_applications :: handler where
  "tool_get_listing_applications api render fetch a =
     require_agent_key a ''agent_key is required.''
       (\<lambda>agentKey.
          one_fetch fetch
            \<lparr>url = api @ ''/api/listings/'' @ js_to_string (arg a ''listing_id'') @ ''/applications'',
             http_method = ''GET'', headers = agent_headers agentKey, json_body = None\<rparr>
            (api_error [''error''])
            (render ''get_listing_applications'' []))"

definition tool_make_listing_offer :: handler where
  "tool_make_listing_offer api render fetch a =
     require_agent_key a ''agent_key is required.''
       (\<lambda>agentKey.
          one_fetch fetch
            \<lparr>url = api @ ''/api/listings/'' @ js_to_string (arg a ''listing_id'')
                   @ ''/applications/'' @ js_to_string (arg a ''application_id'') @ ''/offer'',
             http_method = ''POST'', headers = agent_json_headers agentKey,
             json_body = Some [(''confirm'', JBool True)]\<rparr>
            (api_error [''message'', ''error''])
            (render ''make_listing_offer'' []))"

definition tool_cancel_listing :: handler where
  "tool_cancel_listing api render fetch a =
     require_agent_key a ''agent_key is required.''
       (\<lambda>agentKey.
          one_fetch fetch
            \<lparr>url = api @ ''/api/listings/'' @ js_to_string (arg a ''listing_id''),
             http_method = ''DELETE'', headers = agent_headers agentKey, json_body = None\<rparr>
            (api_error [''message'', ''error''])
            (render ''cancel_listing'' []))"

definition tool_get_promo_status :: handler where
  "tool_get_promo_status api render fetch a =
     one_fetch fetch
       (get_request (api @ ''/api/agents/activate/promo-status''))
       api_error_status
       (render ''get_promo_status'' [])"

definition tool_claim_free_pro_upgrade :: handler where
  "tool_claim_free_pro_upgrade api render fetch a =
     require_agent_key a ''agent_key is required. Register and activate (BASIC tier) first.''
       (\<lambda>agentKey.
          one_fetch fetch
            \<lparr>url = api @ ''/api/agents/activate/promo-upgrade'', http_method = ''POST'',
             headers = agent_json_headers agentKey, json_body = None\<rparr>
            (api_error [''message'', ''error''])
            (render ''claim_free_pro_upgrade'' []))"

definition tool_leave_review :: handler where
  "tool_leave_review api render fetch a =
     one_fetch fetch
       \<lparr>url = api @ ''/api/jobs/'' @ js_to_string (arg a ''job_id'') @ ''/review'',
        http_method = ''POST'', headers = json_headers,
        json_body = Some [(''rating'', arg a ''rating''), (''comment'', arg a ''comment'')]\<rparr>
       (api_error [''reason'', ''error''])
       (render ''leave_review'' [arg a ''rating'', arg a ''comment''])"

section \<open>The CallTool handler\<close>

text \<open>The chain of \<^verbatim>\<open>if (name === '...')\<close> tests, in the handler's order.\<close>

definition dispatch :: "string \<Rightarrow> handler option" where
  "dispatch name =
     (if name = ''search_humans'' then Some tool_search_humans
      else if name = ''get_human'' then Some tool_get_human
      else if name = ''register_agent'' then Some tool_register_agent
      else if name = ''get_agent_profile'' then Some tool_get_agent_profile
      else if name = ''verify_agent_domain'' then Some tool_verify_agent_domain
      else if name = ''create_job_offer'' then Some tool_create_job_offer
      else if name = ''get_job_status'' then Some tool_get_job_status
      else if name = ''mark_job_paid'' then Some tool_mark_job_paid
      else if name = ''check_humanity_status'' then Some tool_check_humanity_status
      else if name = ''get_human_profile'' then Some tool_get_human_profile
      else if name = ''request_activation_code'' then Some tool_request_activation_code
      else if name = ''verify_social_activation'' then Some tool_verify_social_activation
      else if name = ''get_activation_status'' then Some tool_get_activation_status
      else if name = ''get_payment_activation'' then Some tool_get_payment_activation
      else if name = ''verify_payment_activation'' then Some tool_verify_payment_activation
      else if name = ''start_stream'' then Some tool_start_stream
      else if name = ''record_stream_tick'' then Some tool_record_stream_tick
      else if name = ''pause_stream'' then Some tool_pause_stream
      else if name = ''resume_stream'' then Some tool_resume_stream
      else if name = ''stop_stream'' then Some tool_stop_stream
      else if name = ''send_job_message'' then Some tool_send_job_message
      else if name = ''get_job_messages'' then Some tool_get_job_messages
      else if name = ''create_listing'' then Some tool_create_listing
      else if name = ''get_listings'' then Some tool_get_listings
      else if name = ''get_listing'' then Some tool_get_listing
      else if name = ''get_listing_applications'' then Some tool_get_listing_applications
      else if name = ''make_listing_offer'' then Some tool_make_listing_offer
      else if name = ''cancel_listing'' then Some tool_cancel_listing
      else if name = ''get_promo_status'' then Some tool_get_promo_status
      else if name = ''claim_free_pro_upgrade'' then Some tool_claim_free_pro_upgrade
      else if name = ''leave_review'' then Some tool_leave_review
      else None)"

text \<open>
  The result of a tool call: the text of its single content item and the error flag
  (a successful result carries no flag).
\<close>

record tool_result =
  text_of :: string
  isError :: bool

text \<open>
  The handler registered for CallTool: the \<^verbatim>\<open>try\<close> block runs the selected tool body, the
  \<^verbatim>\<open>catch\<close> turns whatever was thrown into an error result, and a name that no test
  matches gives the unknown-tool result.  The first component is the list of requests
  sent to the collaborator.
\<close>

definition callTool :: "string \<Rightarrow> renderer \<Rightarrow> fetch \<Rightarrow> string \<Rightarrow> args \<Rightarrow> request list \<times> tool_result" where
  "callTool api render fetch name a =
     (case dispatch name of
        None \<Rightarrow> ([], \<lparr>text_of = ''Unknown tool: '' @ name, isError = True\<rparr>)
      | Some h \<Rightarrow>
          (case h api render fetch a of
             (tr, Inl msg) \<Rightarrow> (tr, \<lparr>text_of = ''Error: '' @ msg, isError = True\<rparr>)
           | (tr, Inr t) \<Rightarrow> (tr, \<lparr>text_of = t, isError = False\<rparr>)))"

text \<open>
  A process serves CallTool requests one after the other.  The handler closes over no
  variable that is assigned after start-up (the API base URL is a constant), and the HTTP
  entry point builds a fresh server for every request, so serving a sequence of calls is
  the handler applied to each call, with the collaborator as that call observes it.
\<close>

record call =
  call_name :: string
  call_args :: args
  call_fetch :: fetch

definition serve :: "string \<Rightarrow> renderer \<Rightarrow> call list \<Rightarrow> (request list \<times> tool_result) list" where
  "serve api render calls =
     map (\<lambda>c. callTool api render (call_fetch c) (call_name c) (call_args c)) calls"

section \<open>Properties of an invocation\<close>

text \<open>The request header that carries the agent credential.\<close>

definition agent_key_header :: "request \<Rightarrow> jsval option" where
  "agent_key_header rq = map_of (headers rq) ''X-Agent-Key''"

text \<open>
  Every request that was answered with a not-ok response, or not answered at all, made
  the handler body throw.
\<close>

definition fails_closed :: "fetch \<Rightarrow> outcome \<Rightarrow> bool" where
  "fails_closed fetch out =
     (\<forall>rq \<in> set (fst out).
        case fetch rq of Inl e \<Rightarrow> isl (snd out) | Inr res \<Rightarrow> \<not> ok res \<longrightarrow> isl (snd out))"

text \<open>Every request carries either no credential or the credential of this call's arguments.\<close>

definition own_credential :: "args \<Rightarrow> request list \<Rightarrow> bool" where
  "own_credential a tr =
     (\<forall>rq \<in> set tr. agent_key_header rq = None \<or> agent_key_header rq = Some (arg a ''agent_key''))"

text \<open>The tools whose block begins with the local \<^verbatim>\<open>agent_key\<close> check.\<close>

definition agent_key_tools :: "string list" where
  "agent_key_tools =
     [''create_job_offer'', ''get_human_profile'', ''request_activation_code'',
      ''verify_social_activation'', ''get_activation_status'', ''get_payment_activation'',
      ''verify_payment_activation'', ''start_stream'', ''record_stream_tick'', ''pause_stream'',
      ''resume_stream'', ''stop_stream'', ''send_job_message'', ''get_job_messages'',
      ''create_listing'', ''get_listing_applications'', ''make_listing_offer'',
      ''cancel_listing'', ''claim_free_pro_upgrade'']"





text \<open>The names of the tools, as ListTools declares them.\<close>

definition tool_names :: "string list" where
  "tool_names =
     [''search_humans'', ''get_human'', ''register_agent'', ''get_agent_profile'',
      ''verify_agent_domain'', ''create_job_offer'', ''get_job_status'', ''mark_job_paid'',
      ''check_humanity_status'', ''leave_review'', ''get_human_profile'',
      ''request_activation_code'', ''verify_social_activation'', ''get_activation_status'',
      ''get_payment_activation'', ''verify_payment_activation'', ''start_stream'',
      ''record_stream_tick'', ''pause_stream'', ''resume_stream'', ''stop_stream'',
      ''send_job_message'', ''get_job_messages'', ''create_listing'', ''get_listings'',
      ''get_listing'', ''get_listing_applications'', ''make_listing_offer'', ''cancel_listing'',
      ''get_promo_status'', ''claim_free_pro_upgrade'']"

section \<open>The collaborator's stream bookkeeping\<close>

text \<open>
  The tool layer forwards \<^verbatim>\<open>start_stream\<close>, \<^verbatim>\<open>record_stream_tick\<close>, \<^verbatim>\<open>pause_stream\<close>,
  \<^verbatim>\<open>resume_stream\<close> and \<^verbatim>\<open>stop_stream\<close> to the collaborator and prints what it answers; the
  tick count and the cumulative amount live in the collaborator, whose code is not part of
  the tool layer.  Amounts are in the token's smallest unit.
\<close>

text \<open>
  Modelled from the spec: the two stream methods of a streaming Job.  The collaborator's
  declaration is missing from the sources.
\<close>

datatype StreamMethod = SUPERFLUID | MICRO_TRANSFER

text \<open>
  Modelled from the spec: the sub-status of a stream.  The collaborator's declaration is
  missing from the sources.
\<close>

datatype SubStatus = AWAITING_START | ACTIVE | PAUSED | STOPPED


text \<open>
  Modelled from the spec: the StreamState embedded in a streaming Job (method, tick count,
  cumulative amount paid, nullable max ticks, sub-status), with the agreed per-interval
  rate of the Job, the amounts of the verified ticks and whether a tick is open.  The
  collaborator's record is missing from the sources.
\<close>

record StreamState =
  stream_method :: StreamMethod
  rate :: nat
  maxTicks :: "nat option"
  tickCount :: nat
  totalPaid :: nat
  verifiedTicks :: "nat list"
  pendingTick :: bool
  subStatus :: SubStatus











section \<open>Concrete calls\<close>

text \<open>The default API base URL, a renderer and collaborators for concrete calls.\<close>

definition api0 :: string where
  "api0 = ''http://localhost:3001''"

definition demo_render :: renderer where
  "demo_render name vals body = Inr (''ok: '' @ name)"

text \<open>A collaborator that answers every request with 403 and the code of a pending agent.\<close>

definition pending_collaborator :: fetch where
  "pending_collaborator rq =
     Inr \<lparr>status = 403,
          json = Inr (JObj [(''error'', JStr ''Agent is pending activation''),
                            (''code'', JStr ''AGENT_PENDING'')])\<rparr>"

text \<open>A collaborator that accepts every request.\<close>

definition accepting_collaborator :: fetch where
  "accepting_collaborator rq = Inr \<lparr>status = 200, json = Inr (JObj [(''id'', JStr ''r1'')])\<rparr>"



text \<open>
  A collaborator that answers the status request of job \<^verbatim>\<open>j1\<close> like the pending one and
  every other request like the accepting one.
\<close>

definition selective_collaborator :: fetch where
  "selective_collaborator rq =
     (if url rq = ''http://localhost:3001/api/jobs/j1'' then pending_collaborator rq
      else accepting_collaborator rq)"



section \<open>The requests a handler sends\<close>

lemma exchange_trace: "fst (exchange f rq onf) = [rq]"
  by (simp add: exchange_def split: sum.splits)

lemma one_fetch_trace: "fst (one_fetch f rq onf k) = [rq]"
  by (simp add: one_fetch_def exchange_def split: sum.splits prod.splits)

lemma callTool_trace:
  "dispatch name = Some h \<Longrightarrow> fst (callTool api render f name a) = fst (h api render f a)"
  by (simp add: callTool_def split: prod.splits sum.splits)

lemma getHuman_trace:
  "fst (case getHuman api f i of (tr, Inl e) \<Rightarrow> (tr, Inl e) | (tr, Inr v) \<Rightarrow> (tr, k v))
     = [get_request (api @ ''/api/humans/'' @ js_to_string i)]"
  by (simp add: getHuman_def exchange_def split: sum.splits)

lemma searchHumans_trace:
  "fst (case searchHumans api f p of (tr, Inl e) \<Rightarrow> (tr, Inl e) | (tr, Inr v) \<Rightarrow> (tr, k v))
     = [get_request (api @ ''/api/humans/search?'' @ query_string (searchHumans_query p))]"
  by (simp add: searchHumans_def exchange_def split: sum.splits)



section \<open>Zero-valued filters\<close>

lemma arg_upd_same: "arg (a(k \<mapsto> v)) k = v"
  by (simp add: arg_def)

lemma arg_del_same: "arg (a(k := None)) k = JUndefined"
  by (simp add: arg_def)

lemma arg_upd_other: "k' \<noteq> k \<Longrightarrow> arg (a(k \<mapsto> v)) k' = arg a k'"
  by (simp add: arg_def)

lemma arg_del_other: "k' \<noteq> k \<Longrightarrow> arg (a(k := None)) k' = arg a k'"
  by (simp add: arg_def)

lemma set_when_False: "set_when (False, k, v) q = q"
  by (simp add: set_when_def)

lemma search_zero:
  assumes "k \<in> {''lat'', ''lng'', ''radius'', ''max_rate''}"
  shows "tool_search_humans api render fetch (a(k \<mapsto> JNum 0))
           = tool_search_humans api render fetch (a(k := None))"
  using assms
  by (elim insertE emptyE)
     (simp_all add: tool_search_humans_def searchHumans_def searchHumans_query_def set_when_False
        arg_upd_same arg_del_same arg_upd_other arg_del_other)

lemma listings_zero:
  assumes "k \<in> {''page'', ''limit'', ''min_budget'', ''max_budget'', ''lat'', ''lng'', ''radius''}"
  shows "tool_get_listings api render fetch (a(k \<mapsto> JNum 0))
           = tool_get_listings api render fetch (a(k := None))"
  using assms
  by (elim insertE emptyE)
     (simp_all add: get_listings_query_def tool_get_listings_def set_when_False
        arg_upd_same arg_del_same arg_upd_other arg_del_other)

lemma callTool_cong:
  "dispatch name = Some h \<Longrightarrow> h api render f a = h api render f a'
     \<Longrightarrow> callTool api render f name a = callTool api render f name a'"
  by (simp add: callTool_def)

lemma dispatch_search_humans: "dispatch ''search_humans'' = Some tool_search_humans"
  by (simp add: dispatch_def)

lemma dispatch_get_listings: "dispatch ''get_listings'' = Some tool_get_listings"
  by (simp add: dispatch_def)

text \<open>
  C10.  In \<^verbatim>\<open>search_humans\<close> and \<^verbatim>\<open>get_listings\<close> a numeric filter argument whose value is 0
  is left out of the query: the whole invocation (the request sent and the result) is the
  one of the same call without that argument.
\<close>

theorem zero_filter_omitted:
  "(k \<in> {''lat'', ''lng'', ''radius'', ''max_rate''} \<longrightarrow>
      callTool api render fetch ''search_humans'' (a(k \<mapsto> JNum 0))
        = callTool api render fetch ''search_humans'' (a(k := None)))
   \<and> (k \<in> {''page'', ''limit'', ''min_budget'', ''max_budget'', ''lat'', ''lng'', ''radius''} \<longrightarrow>
      callTool api render fetch ''get_listings'' (a(k \<mapsto> JNum 0))
        = callTool api render fetch ''get_listings'' (a(k := None)))"
proof (intro conjI impI)
  assume "k \<in> {''lat'', ''lng'', ''radius'', ''max_rate''}"
  then show "callTool api render fetch ''search_humans'' (a(k \<mapsto> JNum 0))
        = callTool api render fetch ''search_humans'' (a(k := None))"
    by (rule callTool_cong [OF dispatch_search_humans search_zero])
next
  assume "k \<in> {''page'', ''limit'', ''min_budget'', ''max_budget'', ''lat'', ''lng'', ''radius''}"
  then show "callTool api render fetch ''get_listings'' (a(k \<mapsto> JNum 0))
        = callTool api render fetch ''get_listings'' (a(k := None))"
    by (rule callTool_cong [OF dispatch_get_listings listings_zero])
qed

theorem zero_filter_omitted_witness:
  "callTool api0 demo_render pending_collaborator ''search_humans''
       [''skill'' \<mapsto> JStr ''drone'', ''lat'' \<mapsto> JNum 0]
     = callTool api0 demo_render pending_collaborator ''search_humans''
         ([''skill'' \<mapsto> JStr ''drone''](''lat'' := None))
   \<and> callTool api0 demo_render pending_collaborator ''get_listings''
       [''limit'' \<mapsto> JNum 5, ''page'' \<mapsto> JNum 0]
     = callTool api0 demo_render pending_collaborator ''get_listings''
         ([''limit'' \<mapsto> JNum 5](''page'' := None))"
  using zero_filter_omitted [of "''lat''" api0 demo_render pending_collaborator
          "[''skill'' \<mapsto> JStr ''drone'']"]
        zero_filter_omitted [of "''page''" api0 demo_render pending_collaborator
          "[''limit'' \<mapsto> JNum 5]"]
  by simp

section \<open>Thrown errors become error results\<close>

lemma callTool_isError:
  "dispatch name = Some h \<Longrightarrow>
     isError (snd (callTool api render f name a)) = isl (snd (h api render f a))"
  by (simp add: callTool_def split: prod.splits sum.splits)

lemma callTool_thrown:
  "dispatch name = Some h \<Longrightarrow> h api render f a = (tr, Inl msg)
     \<Longrightarrow> callTool api render f name a = (tr, \<lparr>text_of = ''Error: '' @ msg, isError = True\<rparr>)"
  by (simp add: callTool_def)






section \<open>The agent credential\<close>



lemma require_agent_key_falsy:
  "\<not> truthy (arg a ''agent_key'') \<Longrightarrow> require_agent_key a msg rest = ([], Inl msg)"
  by (simp add: require_agent_key_def)


lemma agent_key_header_simps:
  "agent_key_header \<lparr>url = u, http_method = m, headers = agent_json_headers key, json_body = b\<rparr> = Some key"
  "agent_key_header \<lparr>url = u, http_method = m, headers = agent_headers key, json_body = b\<rparr> = Some key"
  "agent_key_header \<lparr>url = u, http_method = m, headers = json_headers, json_body = b\<rparr> = None"
  "agent_key_header (get_request u) = None"
  by (simp_all add: agent_key_header_def agent_json_headers_def agent_headers_def json_headers_def
        get_request_def)




lemma dispatch_requires_key:
  assumes "name \<in> set agent_key_tools" and "dispatch name = Some h"
  shows "\<exists>msg rest. h api render f a = require_agent_key a msg rest
                    \<and> prefix ''agent_key is required'' msg"
  using assms unfolding agent_key_tools_def
  apply simp
  apply (elim disjE)
  apply (simp_all add: dispatch_def)
  apply (simp_all only: tool_create_job_offer_def tool_get_human_profile_def
      tool_request_activation_code_def tool_verify_social_activation_def
      tool_get_activation_status_def tool_get_payment_activation_def
      tool_verify_payment_activation_def tool_start_stream_def tool_record_stream_tick_def
      tool_pause_stream_def tool_resume_stream_def tool_stop_stream_def tool_send_job_message_def
      tool_get_job_messages_def tool_create_listing_def tool_get_listing_applications_def
      tool_make_listing_offer_def tool_cancel_listing_def tool_claim_free_pro_upgrade_def)
  apply (intro exI conjI, rule refl, simp)+
  done






lemma key_tool_without_key:
  assumes "name \<in> set agent_key_tools" and "\<not> truthy (arg a ''agent_key'')"
      and h: "dispatch name = Some h"
  shows "\<exists>msg. h api render fetch a = ([], Inl msg) \<and> prefix ''agent_key is required'' msg"
proof -
  from dispatch_requires_key [OF assms(1) h, of api render fetch a]
  obtain msg rest where "h api render fetch a = require_agent_key a msg rest"
      and "prefix ''agent_key is required'' msg"
    by blast
  with assms(2) show ?thesis
    by (simp add: require_agent_key_falsy)
qed





section \<open>The rating of a review\<close>





section \<open>The local credential check and the collaborator's error text\<close>











lemma agent_key_tools_dispatch:
  "name \<in> set agent_key_tools \<Longrightarrow> \<exists>h. dispatch name = Some h"
  unfolding agent_key_tools_def
  by (simp, elim disjE) (simp_all add: dispatch_def)

lemma key_tool_without_key_result:
  assumes "name \<in> set agent_key_tools" and "\<not> truthy (arg a ''agent_key'')"
  shows "fst (callTool api render fetch name a) = []
         \<and> isError (snd (callTool api render fetch name a))
         \<and> prefix ''Error: agent_key is required'' (text_of (snd (callTool api render fetch name a)))"
proof -
  obtain h where h: "dispatch name = Some h"
    using agent_key_tools_dispatch [OF assms(1)] by blast
  from key_tool_without_key [OF assms h, of api render fetch]
  obtain msg where out: "h api render fetch a = ([], Inl msg)"
      and msg: "prefix ''agent_key is required'' msg"
    by blast
  from callTool_thrown [OF h out] msg show ?thesis
    by simp
qed


text \<open>
  \<^verbatim>\<open>verify_agent_domain\<close> also sends the agent key, but without the local check: it makes
  its request whatever the arguments, with the (possibly undefined) \<^verbatim>\<open>agent_key\<close> as the
  header's value.
\<close>

lemma verify_agent_domain_request:
  "fst (callTool api render fetch ''verify_agent_domain'' a)
     = [\<lparr>url = api @ ''/api/agents/'' @ js_to_string (arg a ''agent_id'') @ ''/verify-domain'',
          http_method = ''POST'',
          headers = [(''Content-Type'', JStr ''application/json''),
                     (''X-Agent-Key'', arg a ''agent_key'')],
          json_body = Some [(''method'', arg a ''method'')]\<rparr>]"
  by (simp add: callTool_trace dispatch_def tool_verify_agent_domain_def one_fetch_trace
        agent_json_headers_def)




section \<open>Failures\<close>

lemmas tool_defs =
    tool_search_humans_def tool_get_human_def tool_register_agent_def tool_get_agent_profile_def
    tool_verify_agent_domain_def tool_create_job_offer_def tool_get_job_status_def tool_mark_job_paid_def
    tool_check_humanity_status_def tool_get_human_profile_def tool_request_activation_code_def
    tool_verify_social_activation_def tool_get_activation_status_def tool_get_payment_activation_def
    tool_verify_payment_activation_def tool_start_stream_def tool_record_stream_tick_def
    tool_pause_stream_def tool_resume_stream_def tool_stop_stream_def tool_send_job_message_def
    tool_get_job_messages_def tool_create_listing_def tool_get_listings_def tool_get_listing_def
    tool_get_listing_applications_def tool_make_listing_offer_def tool_cancel_listing_def
    tool_get_promo_status_def tool_claim_free_pro_upgrade_def tool_leave_review_def

lemma dispatch_None: "(dispatch name = None) = (name \<notin> set tool_names)"
  by (simp add: dispatch_def tool_names_def)

lemma fails_closed_one_fetch: "fails_closed f (one_fetch f rq onf k)"
  by (simp add: fails_closed_def one_fetch_def exchange_def split: sum.splits)

lemma fails_closed_require:
  "(\<And>key. fails_closed f (rest key)) \<Longrightarrow> fails_closed f (require_agent_key a msg rest)"
  by (simp add: require_agent_key_def fails_closed_def Let_def)

lemma fails_closed_getHuman_tool:
  "fails_closed f (case getHuman api f i of (tr, Inl e) \<Rightarrow> (tr, Inl e) | (tr, Inr v) \<Rightarrow> (tr, k v))"
  by (simp add: fails_closed_def getHuman_def exchange_def split: sum.splits)

lemma fails_closed_search:
  "fails_closed f (case searchHumans api f p of (tr, Inl e) \<Rightarrow> (tr, Inl e) | (tr, Inr v) \<Rightarrow> (tr, k v))"
  by (simp add: fails_closed_def searchHumans_def exchange_def split: sum.splits)

lemma fails_closed_create_job_offer: "fails_closed f (tool_create_job_offer api render f a)"
  unfolding tool_create_job_offer_def
  apply (rule fails_closed_require)
  apply (simp add: fails_closed_def getHuman_def exchange_def split: sum.splits)
  done

lemma dispatch_fails_closed:
  "dispatch name = Some h \<Longrightarrow> fails_closed f (h api render f a)"
  unfolding dispatch_def
  apply (simp split: if_splits)
  apply (simp_all only: tool_defs)
  apply (rule fails_closed_getHuman_tool fails_closed_search
           fails_closed_create_job_offer [unfolded tool_create_job_offer_def] fails_closed_one_fetch
       | (rule fails_closed_require, rule fails_closed_one_fetch))+
  done

lemma callTool_text_nonempty:
  "isError (snd (callTool api render f name a)) \<Longrightarrow> text_of (snd (callTool api render f name a)) \<noteq> []"
  by (simp add: callTool_def split: option.splits prod.splits sum.splits)

lemma callTool_unknown:
  "dispatch name = None \<Longrightarrow>
     callTool api render f name a = ([], \<lparr>text_of = ''Unknown tool: '' @ name, isError = True\<rparr>)"
  by (simp add: callTool_def)

lemma callTool_fails_closed:
  assumes "rq \<in> set (fst (callTool api render f name a))"
  shows "(\<forall>res. f rq = Inr res \<and> \<not> ok res \<longrightarrow> isError (snd (callTool api render f name a)))
         \<and> (\<forall>e. f rq = Inl e \<longrightarrow> isError (snd (callTool api render f name a)))"
proof (cases "dispatch name")
  case None
  with assms show ?thesis
    by (simp add: callTool_unknown)
next
  case (Some h)
  from dispatch_fails_closed [OF Some, of f api render a] assms show ?thesis
    by (auto simp add: fails_closed_def callTool_trace [OF Some] callTool_isError [OF Some]
          split: sum.splits)
qed

text \<open>
  C2.  Every failure of a tool invocation is returned as an error result with a message:
  an unknown tool name gives \<^verbatim>\<open>Unknown tool: <name>\<close>; a missing agent key, where the handler
  checks it, gives an error result without any request; a request that the collaborator
  answers with a not-ok response, or that fails to be answered, gives an error result;
  whatever the handler body throws is caught and becomes the result \<^verbatim>\<open>Error: <message>\<close>
  (the handler is a total function: nothing propagates); an error result has a non-empty
  text.  The handler has no state: in a sequence of calls served by one process, the
  results of the calls that follow a call are those of serving them alone.
\<close>

theorem failures_are_error_results:
  "(name \<notin> set tool_names \<longrightarrow>
      callTool api render fetch name a
        = ([], \<lparr>text_of = ''Unknown tool: '' @ name, isError = True\<rparr>))
   \<and> (name \<in> set agent_key_tools \<and> \<not> truthy (arg a ''agent_key'') \<longrightarrow>
        fst (callTool api render fetch name a) = []
        \<and> isError (snd (callTool api render fetch name a)))
   \<and> (\<forall>rq \<in> set (fst (callTool api render fetch name a)).
         (\<forall>res. fetch rq = Inr res \<and> \<not> ok res \<longrightarrow>
                  isError (snd (callTool api render fetch name a)))
         \<and> (\<forall>e. fetch rq = Inl e \<longrightarrow> isError (snd (callTool api render fetch name a))))
   \<and> (\<forall>h tr msg. dispatch name = Some h \<and> h api render fetch a = (tr, Inl msg) \<longrightarrow>
         callTool api render fetch name a
           = (tr, \<lparr>text_of = ''Error: '' @ msg, isError = True\<rparr>))
   \<and> (isError (snd (callTool api render fetch name a)) \<longrightarrow>
         text_of (snd (callTool api render fetch name a)) \<noteq> [])
   \<and> (\<forall>c cs. tl (serve api render (c # cs)) = serve api render cs)"
proof (intro conjI)
  show "name \<notin> set tool_names \<longrightarrow>
      callTool api render fetch name a
        = ([], \<lparr>text_of = ''Unknown tool: '' @ name, isError = True\<rparr>)"
    by (simp add: dispatch_None [symmetric] callTool_unknown)
  show "name \<in> set agent_key_tools \<and> \<not> truthy (arg a ''agent_key'') \<longrightarrow>
        fst (callTool api render fetch name a) = []
        \<and> isError (snd (callTool api render fetch name a))"
    using key_tool_without_key_result [of name a api render fetch] by simp
  show "\<forall>rq \<in> set (fst (callTool api render fetch name a)).
         (\<forall>res. fetch rq = Inr res \<and> \<not> ok res \<longrightarrow>
                  isError (snd (callTool api render fetch name a)))
         \<and> (\<forall>e. fetch rq = Inl e \<longrightarrow> isError (snd (callTool api render fetch name a)))"
    by (rule ballI) (rule callTool_fails_closed)
  show "\<forall>h tr msg. dispatch name = Some h \<and> h api render fetch a = (tr, Inl msg) \<longrightarrow>
         callTool api render fetch name a
           = (tr, \<lparr>text_of = ''Error: '' @ msg, isError = True\<rparr>)"
    by (simp add: callTool_thrown)
  show "isError (snd (callTool api render fetch name a)) \<longrightarrow>
         text_of (snd (callTool api render fetch name a)) \<noteq> []"
    by (simp add: callTool_text_nonempty)
  show "\<forall>c cs. tl (serve api render (c # cs)) = serve api render cs"
    by (simp add: serve_def)
qed

theorem failures_are_error_results_witness:
  "callTool api0 demo_render pending_collaborator ''nonexistent_tool'' Map.empty
     = ([], \<lparr>text_of = ''Unknown tool: nonexistent_tool'', isError = True\<rparr>)
   \<and> isError (snd (callTool api0 demo_render pending_collaborator ''get_job_status''
                      [''job_id'' \<mapsto> JStr ''j1'']))
   \<and> fst (callTool api0 demo_render pending_collaborator ''cancel_listing''
                      [''listing_id'' \<mapsto> JStr ''l1'']) = []"
proof -
  have tr: "fst (callTool api0 demo_render pending_collaborator ''get_job_status''
                      [''job_id'' \<mapsto> JStr ''j1''])
              = [get_request ''http://localhost:3001/api/jobs/j1'']"
    by (simp add: callTool_trace dispatch_def tool_get_job_status_def one_fetch_trace arg_def api0_def)
  show ?thesis
    using failures_are_error_results [of "''nonexistent_tool''" api0 demo_render pending_collaborator
            Map.empty]
          failures_are_error_results [of "''get_job_status''" api0 demo_render pending_collaborator
            "[''job_id'' \<mapsto> JStr ''j1'']"]
          failures_are_error_results [of "''cancel_listing''" api0 demo_render pending_collaborator
            "[''listing_id'' \<mapsto> JStr ''l1'']"]
    by (simp add: tr tool_names_def agent_key_tools_def pending_collaborator_def ok_def arg_def)
qed

section \<open>Two runs of the same call\<close>

lemma exchange_agree:
  "\<forall>rq \<in> set (fst (exchange f1 rq0 onf)). f1 rq = f2 rq \<Longrightarrow> exchange f2 rq0 onf = exchange f1 rq0 onf"
  by (simp add: exchange_trace) (simp add: exchange_def)

lemma one_fetch_agree:
  "\<forall>rq \<in> set (fst (one_fetch f1 rq0 onf k)). f1 rq = f2 rq
     \<Longrightarrow> one_fetch f2 rq0 onf k = one_fetch f1 rq0 onf k"
  by (simp add: one_fetch_trace) (simp add: one_fetch_def exchange_def)

lemma require_agree:
  assumes "\<forall>rq \<in> set (fst (require_agent_key a msg rest1)). f1 rq = f2 rq"
      and "\<And>key. \<forall>rq \<in> set (fst (rest1 key)). f1 rq = f2 rq \<Longrightarrow> rest2 key = rest1 key"
  shows "require_agent_key a msg rest2 = require_agent_key a msg rest1"
  using assms by (simp add: require_agent_key_def Let_def split: if_splits)

lemma getHuman_tool_agree:
  "\<forall>rq \<in> set (fst (case getHuman api f1 i of (tr, Inl e) \<Rightarrow> (tr, Inl e) | (tr, Inr v) \<Rightarrow> (tr, k v))).
      f1 rq = f2 rq
   \<Longrightarrow> (case getHuman api f2 i of (tr, Inl e) \<Rightarrow> (tr, Inl e) | (tr, Inr v) \<Rightarrow> (tr, k v))
       = (case getHuman api f1 i of (tr, Inl e) \<Rightarrow> (tr, Inl e) | (tr, Inr v) \<Rightarrow> (tr, k v))"
  by (simp add: getHuman_trace) (simp add: getHuman_def exchange_def)

lemma search_tool_agree:
  "\<forall>rq \<in> set (fst (case searchHumans api f1 p of (tr, Inl e) \<Rightarrow> (tr, Inl e) | (tr, Inr v) \<Rightarrow> (tr, k v))).
      f1 rq = f2 rq
   \<Longrightarrow> (case searchHumans api f2 p of (tr, Inl e) \<Rightarrow> (tr, Inl e) | (tr, Inr v) \<Rightarrow> (tr, k v))
       = (case searchHumans api f1 p of (tr, Inl e) \<Rightarrow> (tr, Inl e) | (tr, Inr v) \<Rightarrow> (tr, k v))"
  by (simp add: searchHumans_trace) (simp add: searchHumans_def exchange_def)

lemma exchange_same:
  "f1 rq0 = f2 rq0 \<Longrightarrow> exchange f2 rq0 onf = exchange f1 rq0 onf"
  by (simp add: exchange_def)

lemma getHuman_same:
  "f1 (get_request (api @ ''/api/humans/'' @ js_to_string i))
     = f2 (get_request (api @ ''/api/humans/'' @ js_to_string i))
   \<Longrightarrow> getHuman api f2 i = getHuman api f1 i"
  by (simp add: getHuman_def exchange_def)

lemma getHuman_requests:
  "fst (getHuman api f i) = [get_request (api @ ''/api/humans/'' @ js_to_string i)]"
  by (simp add: getHuman_def exchange_trace)

lemma then_trace_Cons:
  "fst (case p of (tr', Inl e) \<Rightarrow> (x # tr', Inl e) | (tr', Inr v) \<Rightarrow> (x # tr', k v)) = x # fst p"
  by (simp split: prod.splits sum.splits)

lemma create_job_offer_rest_agree:
  assumes "\<forall>rq \<in> set (fst (case exchange f1 R P of
                               (tr, Inl e) \<Rightarrow> (tr, Inl e)
                             | (tr, Inr job) \<Rightarrow>
                                 (case getHuman api f1 H of
                                    (tr', Inl e) \<Rightarrow> (tr @ tr', Inl e)
                                  | (tr', Inr human) \<Rightarrow> (tr @ tr', K job human)))).
             f1 rq = f2 rq"
  shows "(case exchange f2 R P of
            (tr, Inl e) \<Rightarrow> (tr, Inl e)
          | (tr, Inr job) \<Rightarrow>
              (case getHuman api f2 H of
                 (tr', Inl e) \<Rightarrow> (tr @ tr', Inl e)
               | (tr', Inr human) \<Rightarrow> (tr @ tr', K job human)))
         = (case exchange f1 R P of
              (tr, Inl e) \<Rightarrow> (tr, Inl e)
            | (tr, Inr job) \<Rightarrow>
                (case getHuman api f1 H of
                   (tr', Inl e) \<Rightarrow> (tr @ tr', Inl e)
                 | (tr', Inr human) \<Rightarrow> (tr @ tr', K job human)))"
proof -
  obtain r where e: "exchange f1 R P = ([R], r)"
    using exchange_trace [of f1 R P] by (cases "exchange f1 R P") simp
  show ?thesis
  proof (cases r)
    case (Inl msg)
    with assms e have "f1 R = f2 R"
      by simp
    then have "exchange f2 R P = exchange f1 R P"
      by (rule exchange_same)
    with e Inl show ?thesis
      by simp
  next
    case (Inr job)
    with assms e have R: "f1 R = f2 R"
        and G: "f1 (get_request (api @ ''/api/humans/'' @ js_to_string H))
               = f2 (get_request (api @ ''/api/humans/'' @ js_to_string H))"
      by (simp_all add: then_trace_Cons getHuman_requests)
    from R have 1: "exchange f2 R P = exchange f1 R P"
      by (rule exchange_same)
    from G have 2: "getHuman api f2 H = getHuman api f1 H"
      by (rule getHuman_same)
    show ?thesis
      by (simp only: 1 2)
  qed
qed

lemma create_job_offer_agree:
  assumes "\<forall>rq \<in> set (fst (tool_create_job_offer api render f1 a)). f1 rq = f2 rq"
  shows "tool_create_job_offer api render f2 a = tool_create_job_offer api render f1 a"
  using assms unfolding tool_create_job_offer_def
  by (rule require_agree) (rule create_job_offer_rest_agree)

lemma dispatch_agree:
  assumes "dispatch name = Some h"
      and "\<forall>rq \<in> set (fst (h api render f1 a)). f1 rq = f2 rq"
  shows "h api render f2 a = h api render f1 a"
  using assms unfolding dispatch_def
  apply (simp split: if_splits)
  apply (simp_all only: tool_defs)
  apply (erule getHuman_tool_agree search_tool_agree create_job_offer_agree [unfolded tool_create_job_offer_def] one_fetch_agree
       | (erule require_agree, erule one_fetch_agree))+
  done

lemma own_credential_one_fetch:
  "agent_key_header rq = None \<or> agent_key_header rq = Some (arg a ''agent_key'')
     \<Longrightarrow> own_credential a (fst (one_fetch f rq onf k))"
  by (simp add: own_credential_def one_fetch_trace)

lemma own_credential_require:
  "own_credential a (fst (rest (arg a ''agent_key'')))
     \<Longrightarrow> own_credential a (fst (require_agent_key a msg rest))"
  by (simp add: require_agent_key_def own_credential_def Let_def)

lemma own_credential_getHuman_tool:
  "own_credential a (fst (case getHuman api f i of (tr, Inl e) \<Rightarrow> (tr, Inl e) | (tr, Inr v) \<Rightarrow> (tr, k v)))"
  by (simp add: own_credential_def getHuman_trace agent_key_header_simps)

lemma own_credential_search:
  "own_credential a (fst (case searchHumans api f p of (tr, Inl e) \<Rightarrow> (tr, Inl e) | (tr, Inr v) \<Rightarrow> (tr, k v)))"
  by (simp add: own_credential_def searchHumans_trace agent_key_header_simps)

lemma own_credential_create_job_offer:
  "own_credential a (fst (tool_create_job_offer api render f a))"
  unfolding tool_create_job_offer_def
  apply (rule own_credential_require)
  apply (simp add: own_credential_def getHuman_def exchange_def create_job_request_def
           agent_key_header_simps split: sum.splits)
  done

lemma dispatch_own_credential:
  "dispatch name = Some h \<Longrightarrow> own_credential a (fst (h api render f a))"
  unfolding dispatch_def
  apply (simp split: if_splits)
  apply (simp_all only: tool_defs)
  apply (rule own_credential_getHuman_tool own_credential_search
           own_credential_create_job_offer [unfolded tool_create_job_offer_def]
       | (rule own_credential_one_fetch, simp add: agent_key_header_simps)
       | (rule own_credential_require, rule own_credential_one_fetch, simp add: agent_key_header_simps))+
  done

text \<open>
  C8.  The tool layer is stateless and deterministic.  Two runs of the same tool with the
  same arguments give the same requests and the same result whenever the collaborator of
  the second run answers the requests of the first run as the collaborator of the first
  run did.  Every request of an invocation carries either no agent credential or the
  \<^verbatim>\<open>agent_key\<close> of that invocation's own arguments.  In a sequence of calls served by one
  process, each result is the result of that call alone, and each call's requests carry
  that call's own credential.
\<close>

theorem stateless_two_run:
  "((\<forall>rq \<in> set (fst (callTool api render f1 name a)). f1 rq = f2 rq) \<longrightarrow>
      callTool api render f2 name a = callTool api render f1 name a)
   \<and> own_credential a (fst (callTool api render f1 name a))
   \<and> (\<forall>i < length calls.
         serve api render calls ! i
           = callTool api render (call_fetch (calls ! i)) (call_name (calls ! i))
               (call_args (calls ! i))
         \<and> own_credential (call_args (calls ! i)) (fst (serve api render calls ! i)))"
proof (intro conjI impI allI)
  assume agree: "\<forall>rq \<in> set (fst (callTool api render f1 name a)). f1 rq = f2 rq"
  show "callTool api render f2 name a = callTool api render f1 name a"
  proof (cases "dispatch name")
    case None
    then show ?thesis by (simp add: callTool_unknown)
  next
    case (Some h)
    from agree have "\<forall>rq \<in> set (fst (h api render f1 a)). f1 rq = f2 rq"
      by (simp add: callTool_trace [OF Some])
    from dispatch_agree [OF Some this] Some show ?thesis
      by (simp add: callTool_def)
  qed
next
  show own: "own_credential a (fst (callTool api render f name a))" for f name a
  proof (cases "dispatch name")
    case None
    then show ?thesis by (simp add: callTool_unknown own_credential_def)
  next
    case (Some h)
    from dispatch_own_credential [OF Some] show ?thesis
      by (simp add: callTool_trace [OF Some])
  qed
  fix i
  assume "i < length calls"
  then show "serve api render calls ! i
           = callTool api render (call_fetch (calls ! i)) (call_name (calls ! i))
               (call_args (calls ! i))"
    by (simp add: serve_def)
  assume "i < length calls"
  then show "own_credential (call_args (calls ! i)) (fst (serve api render calls ! i))"
    by (simp add: serve_def own)
qed


theorem stateless_two_run_witness:
  "callTool api0 demo_render selective_collaborator ''get_job_status'' [''job_id'' \<mapsto> JStr ''j1'']
     = callTool api0 demo_render pending_collaborator ''get_job_status'' [''job_id'' \<mapsto> JStr ''j1'']"
proof -
  have tr: "fst (callTool api0 demo_render pending_collaborator ''get_job_status''
                      [''job_id'' \<mapsto> JStr ''j1''])
              = [get_request ''http://localhost:3001/api/jobs/j1'']"
    by (simp add: callTool_trace dispatch_def tool_get_job_status_def one_fetch_trace arg_def api0_def)
  show ?thesis
    using stateless_two_run [of api0 demo_render pending_collaborator "''get_job_status''"
            "[''job_id'' \<mapsto> JStr ''j1'']" selective_collaborator "[]"]
    by (simp add: tr selective_collaborator_def get_request_def)
qed

section \<open>Next-step guidance\<close>














section \<open>The accounting of a micro-transfer stream\<close>









end
